theory Spec2Isabelle
  imports Main "HOL-Library.Word"
begin

section \<open>Values of the embedded runtime\<close>

type_synonym u8 = "8 word"
type_synonym u16 = "16 word"
type_synonym u64 = "64 word"

text \<open>
  The guest objects that reach the host API. A text object carries its UTF-8 content,
  which may hold an embedded NUL character. A type object carries what \<open>createStructureType\<close> reads of it: \<open>tp_name\<close>, the
  \<open>tp_name\<close> of \<open>tp_base\<close> (\<open>None\<close> for a null \<open>tp_base\<close>), whether calling it
  with no arguments yields an instance, and \<open>tp_dict\<close> (\<open>None\<close> for a null pointer)
  as an association list from attribute names to objects.
\<close>

datatype pyobj =
    PyLong int
  | PyBytes "u8 list"
  | PyUnicode string
  | PyNone
  | PyDict "(pyobj \<times> pyobj) list"
  | PyType pytype
and pytype =
    Type (tp_name: string) (tp_base: "string option") (tp_call_ok: bool)
         (tp_dict: "(string \<times> pyobj) list option")

datatype pyexc = TypeError string | IndexError string

text \<open>
  A host function either raises an exception of the runtime (it returns \<open>nullptr\<close> with
  the error indicator set), or runs into undefined behaviour of C++ (a null pointer is
  dereferenced, an indeterminate pointer is read through): the call does not return.
\<close>

datatype failure = Raised pyexc | Undefined string

definition PyErr_BadArgument :: pyexc where
  "PyErr_BadArgument = TypeError ''bad argument type for built-in operation''"

section \<open>Host collaborators\<close>

text \<open>
  \<open>Region\<close> and \<open>Bookmark\<close>; the field \<open>size\<close> of a region is \<open>region_size\<close>
  here, \<open>size\<close> being a constant of HOL.
\<close>

record region =
  address :: u64
  region_size :: u64

record bookmark =
  region :: region
  name :: string
  comment :: string

datatype event = AddBookmark bookmark | AppendPatternLanguageCode string

text \<open>
  The process-wide context of one script run: the path of the loaded file, the bytes of
  the data provider \<open>s_dataProvider\<close> points to, and the events posted so far through
  \<open>View::postEvent\<close>, oldest first.
\<close>

record host =
  s_filePath :: string
  s_dataProvider :: "u8 list"
  events :: "event list"

definition postEvent :: "event \<Rightarrow> host \<Rightarrow> host" where
  "postEvent e h = h\<lparr>events := events h @ [e]\<rparr>"

definition getActualSize :: "u8 list \<Rightarrow> nat" where
  "getActualSize p = length p"

text \<open>
  Modelled from the spec: the data provider's \<open>write\<close> (\<open>provider_write\<close> here) is
  not part of the source file; the spec calls it a bounded write. A write whose range \<open>[offset, offset + count)\<close>
  lies within the provider replaces these bytes; a write that is empty or does not lie
  within the provider changes nothing. The size never changes.
\<close>

definition provider_write :: "u8 list \<Rightarrow> u64 \<Rightarrow> u8 list \<Rightarrow> u8 list" where
  "provider_write p offset buffer =
     (if buffer = [] \<or> unat offset + length buffer > getActualSize p then p
      else take (unat offset) p @ buffer @ drop (unat offset + length buffer) p)"

section \<open>Argument parsing\<close>

text \<open>
  \<open>PyArg_ParseTuple\<close> as the runtime implements it. A first pass over the format
  counts the arguments: every letter is one more argument, and \<open>|\<close> sets the minimum to
  the number of arguments counted so far, so that the last \<open>|\<close> decides. A second pass
  converts the arguments that are present, skipping a \<open>|\<close> before each; the variables
  of the arguments that are absent are left as they were.
\<close>

datatype cval = C_ulonglong u64 | C_ssize "64 word" | C_str string | C_buf "u8 list"

definition Py_ISALPHA :: "char \<Rightarrow> bool" where
  "Py_ISALPHA c = (let n = (of_char c :: nat) in (65 \<le> n \<and> n \<le> 90) \<or> (97 \<le> n \<and> n \<le> 122))"

fun arg_bounds :: "string \<Rightarrow> nat option \<Rightarrow> nat \<Rightarrow> nat \<times> nat" where
  "arg_bounds [] mn mx = (case mn of None \<Rightarrow> mx | Some m \<Rightarrow> m, mx)"
| "arg_bounds (c # cs) mn mx =
     (if c = CHR ''|'' then arg_bounds cs (Some mx) mx
      else if Py_ISALPHA c then arg_bounds cs mn (Suc mx)
      else arg_bounds cs mn mx)"

text \<open>
  The format units the host API uses: \<open>K\<close> reads an integer into an unsigned 64-bit
  value without overflow checking, \<open>n\<close> reads an integer into a \<open>Py_ssize_t\<close> and fails
  outside its range, \<open>s\<close> reads a text object into a C string and refuses a text
  with an embedded NUL character, \<open>y#\<close> reads a bytes object into a pointer and a
  length.
\<close>

fun convertitem :: "string \<Rightarrow> pyobj \<Rightarrow> (cval \<times> string) option" where
  "convertitem [] arg = None"
| "convertitem (c # rest) arg =
     (if c = CHR ''K'' then
        (case arg of PyLong v \<Rightarrow> Some (C_ulonglong (word_of_int v), rest) | _ \<Rightarrow> None)
      else if c = CHR ''n'' then
        (case arg of
           PyLong v \<Rightarrow>
             if - (2 ^ 63) \<le> v \<and> v < 2 ^ 63 then Some (C_ssize (word_of_int v), rest) else None
         | _ \<Rightarrow> None)
      else if c = CHR ''s'' then
        (case arg of
           PyUnicode s \<Rightarrow> if CHR 0x00 \<in> set s then None else Some (C_str s, rest)
         | _ \<Rightarrow> None)
      else if c = CHR ''y'' \<and> take 1 rest = ''#'' then
        (case arg of PyBytes b \<Rightarrow> Some (C_buf b, drop 1 rest) | _ \<Rightarrow> None)
      else None)"

fun convert_args :: "string \<Rightarrow> pyobj list \<Rightarrow> cval list option" where
  "convert_args format [] = Some []"
| "convert_args format (arg # args) =
     (case convertitem (if take 1 format = ''|'' then drop 1 format else format) arg of
        None \<Rightarrow> None
      | Some (v, rest) \<Rightarrow>
          (case convert_args rest args of None \<Rightarrow> None | Some vs \<Rightarrow> Some (v # vs)))"

definition PyArg_ParseTuple :: "pyobj list \<Rightarrow> string \<Rightarrow> cval list option" where
  "PyArg_ParseTuple args format =
     (let (mn, mx) = arg_bounds format None 0
      in if length args < mn \<or> mx < length args then None else convert_args format args)"

section \<open>Host API surface\<close>

definition Py_getFilePath :: "host \<Rightarrow> (failure + pyobj) \<times> host" where
  "Py_getFilePath h = (Inr (PyUnicode (s_filePath h)), h)"

text \<open>
  The locals \<open>patches\<close> and \<open>count\<close> of \<open>Py_addPatch\<close> are declared without an
  initialiser, and \<open>y#\<close> is optional in the format \<open>K|y#\<close>: when the buffer argument
  is absent both keep their indeterminate values, which are a parameter of the model
  (\<open>Indeterminate\<close> is a pointer that is neither null nor the address of an object).
  \<open>count\<close> is a \<open>Py_ssize_t\<close>, read as the integer it holds.
\<close>

datatype 'a pointer = Nullptr | Ptr 'a | Indeterminate

definition Py_addPatch ::
  "u8 list pointer \<times> int \<Rightarrow> pyobj list \<Rightarrow> host \<Rightarrow> (failure + pyobj) \<times> host" where
  "Py_addPatch uninit args h =
     (case PyArg_ParseTuple args ''K|y#'' of
        None \<Rightarrow> (Inl (Raised PyErr_BadArgument), h)
      | Some vals \<Rightarrow>
          (case vals of
             C_ulonglong addr # rest \<Rightarrow>
               (let (patches, count) =
                      (case rest of
                         C_buf b # _ \<Rightarrow> (Ptr b, int (length b))
                       | _ \<Rightarrow> uninit)
                in if patches = Nullptr \<or> count = 0 then
                     (Inl (Raised (TypeError ''Invalid patch provided'')), h)
                   else if unat addr \<ge> getActualSize (s_dataProvider h) then
                     (Inl (Raised (IndexError ''address out of range'')), h)
                   else
                     (case patches of
                        Ptr b \<Rightarrow>
                          (Inr PyNone,
                           h\<lparr>s_dataProvider := provider_write (s_dataProvider h) addr b\<rparr>)
                      | _ \<Rightarrow> (Inl (Undefined ''read through an indeterminate pointer''), h)))
           | _ \<Rightarrow> (Inl (Raised PyErr_BadArgument), h)))"

text \<open>
  \<open>Py_addBookmark\<close> initialises \<open>name\<close> and \<open>comment\<close> to \<open>nullptr\<close>. Its format
  \<open>K|n|s|s\<close> makes the first three arguments required and the fourth optional, so a
  successful parse has stored the address and the size.
\<close>

definition Py_addBookmark :: "pyobj list \<Rightarrow> host \<Rightarrow> (failure + pyobj) \<times> host" where
  "Py_addBookmark args h =
     (case PyArg_ParseTuple args ''K|n|s|s'' of
        None \<Rightarrow> (Inl (Raised PyErr_BadArgument), h)
      | Some vals \<Rightarrow>
          (case vals of
             C_ulonglong a # C_ssize n # texts \<Rightarrow>
               (let nm = (case texts of C_str s # _ \<Rightarrow> Ptr s | _ \<Rightarrow> Nullptr);
                    cm = (case drop 1 texts of C_str s # _ \<Rightarrow> Ptr s | _ \<Rightarrow> Nullptr)
                in (case (nm, cm) of
                      (Ptr s, Ptr t) \<Rightarrow>
                        (Inr PyNone,
                         postEvent
                           (AddBookmark
                              \<lparr>region = \<lparr>address = a, region_size = n\<rparr>, name = s, comment = t\<rparr>)
                           h)
                    | _ \<Rightarrow> (Inl (Raised (IndexError ''address out of range'')), h)))
           | _ \<Rightarrow> (Inl (Raised PyErr_BadArgument), h)))"

section \<open>Type reflection translator\<close>

text \<open>
  What the translator asks of the runtime. Calling an object with no arguments gives an
  instance only for a type object that can be instantiated so; the instance is
  represented by its \<open>ob_type\<close>. The other two return null on an object of the wrong
  kind. The keys of an annotation mapping are member names, identifiers of the guest
  language with no NUL character in them, so the C string of a key is the whole name.
\<close>

definition PyObject_CallObject :: "pyobj \<Rightarrow> pytype option" where
  "PyObject_CallObject callable =
     (case callable of PyType t \<Rightarrow> if tp_call_ok t then Some t else None | _ \<Rightarrow> None)"

definition PyUnicode_AsUTF8 :: "pyobj \<Rightarrow> string option" where
  "PyUnicode_AsUTF8 obj = (case obj of PyUnicode s \<Rightarrow> Some s | _ \<Rightarrow> None)"

definition PyDict_Items :: "pyobj \<Rightarrow> (pyobj \<times> pyobj) list option" where
  "PyDict_Items obj = (case obj of PyDict items \<Rightarrow> Some items | _ \<Rightarrow> None)"

definition extends_ImHexType :: "pytype \<Rightarrow> bool" where
  "extends_ImHexType t = (case tp_base t of None \<Rightarrow> False | Some b \<Rightarrow> b = ''ImHexType'')"

text \<open>
  The body of the member loop for one item of the annotation list: the line it appends
  to the declaration, or how it leaves the function. When the annotated type cannot be
  instantiated the error branch passes the null instance to \<open>Py_DECREF\<close>; when the key
  is not a text object the null member name is appended to a \<open>std::string\<close>. The items
  of a dictionary are pairs, so the annotated type itself is never a null pointer.
\<close>

definition member_line :: "pyobj \<times> pyobj \<Rightarrow> failure + string" where
  "member_line item =
     (let memberName = PyUnicode_AsUTF8 (fst item);
          memberType = snd item
      in case PyObject_CallObject memberType of
           None \<Rightarrow> Inl (Undefined ''Py_DECREF of a null pointer'')
         | Some memberTypeInstance \<Rightarrow>
             if \<not> extends_ImHexType memberTypeInstance then
               Inl (Raised (TypeError
                 ''member needs to have a annotation extending from ImHexType''))
             else
               (case memberName of
                  None \<Rightarrow> Inl (Undefined ''std::string appended with a null pointer'')
                | Some n \<Rightarrow> Inr (''   '' @ tp_name memberTypeInstance @ '' '' @ n @ '';\<newline>'')))"

text \<open>
  The loop \<open>for (u16 i = 0; i < PyList_Size(list); i++)\<close>: the counter is a 16-bit
  word and \<open>i++\<close> wraps around. \<open>None\<close> is a loop that does not end.
\<close>

partial_function (option) member_loop ::
  "(pyobj \<times> pyobj) list \<Rightarrow> u16 \<Rightarrow> string \<Rightarrow> (failure + string) option" where
  "member_loop list i code =
     (if unat i < length list then
        (case member_line (list ! unat i) of
           Inl e \<Rightarrow> Some (Inl e)
         | Inr line \<Rightarrow> member_loop list (i + 1) (code @ line))
      else Some (Inr code))"

declare member_loop.simps [code]

definition createStructureType ::
  "string \<Rightarrow> pyobj list \<Rightarrow> host \<Rightarrow> ((failure + pyobj) \<times> host) option" where
  "createStructureType keyword args h =
     (case args of
        [] \<Rightarrow> Some (Inl (Raised PyErr_BadArgument), h)
      | type # _ \<Rightarrow>
          (case PyObject_CallObject type of
             None \<Rightarrow> Some (Inl (Raised PyErr_BadArgument), h)
           | Some ob_type \<Rightarrow>
               if \<not> extends_ImHexType ob_type then
                 Some (Inl (Raised (TypeError ''class type must extend from ImHexType'')), h)
               else
                 (case tp_dict ob_type of
                    None \<Rightarrow> Some (Inl (Raised PyErr_BadArgument), h)
                  | Some dict \<Rightarrow>
                      (case map_of dict ''__annotations__'' of
                         None \<Rightarrow> Some (Inl (Raised PyErr_BadArgument), h)
                       | Some annotations \<Rightarrow>
                           (case PyDict_Items annotations of
                              None \<Rightarrow> Some (Inl (Raised PyErr_BadArgument), h)
                            | Some list \<Rightarrow>
                                (case member_loop list 0
                                        (keyword @ '' '' @ tp_name ob_type @ '' {\<newline>'') of
                                   None \<Rightarrow> None
                                 | Some (Inl e) \<Rightarrow> Some (Inl e, h)
                                 | Some (Inr code) \<Rightarrow>
                                     Some (Inr PyNone,
                                           postEvent
                                             (AppendPatternLanguageCode (code @ ''};\<newline>''))
                                             h)))))))"

definition Py_addStruct :: "pyobj list \<Rightarrow> host \<Rightarrow> ((failure + pyobj) \<times> host) option" where
  "Py_addStruct args h = createStructureType ''struct'' args h"

definition Py_addUnion :: "pyobj list \<Rightarrow> host \<Rightarrow> ((failure + pyobj) \<times> host) option" where
  "Py_addUnion args h = createStructureType ''union'' args h"

section \<open>Interpreter lifecycle manager\<close>

text \<open>
  A guest script, as far as the host sees it: the host calls it makes, in order, and the
  exceptions it raises itself. An exception that reaches the top of the script ends the
  run. The table \<open>ImHexMethods\<close> binds the names of the module to the host functions.
\<close>

datatype call =
    Get_file_path
  | Patch "u8 list pointer \<times> int" "pyobj list"
  | Add_bookmark "pyobj list"
  | Add_struct "pyobj list"
  | Add_union "pyobj list"

datatype stmt = Invoke call | Raise pyexc

fun ImHexMethods :: "call \<Rightarrow> host \<Rightarrow> ((failure + pyobj) \<times> host) option" where
  "ImHexMethods Get_file_path h = Some (Py_getFilePath h)"
| "ImHexMethods (Patch uninit args) h = Some (Py_addPatch uninit args h)"
| "ImHexMethods (Add_bookmark args) h = Some (Py_addBookmark args h)"
| "ImHexMethods (Add_struct args) h = Py_addStruct args h"
| "ImHexMethods (Add_union args) h = Py_addUnion args h"

fun exec_stmt :: "stmt \<Rightarrow> host \<Rightarrow> ((failure + pyobj) \<times> host) option" where
  "exec_stmt (Invoke c) h = ImHexMethods c h"
| "exec_stmt (Raise e) h = Some (Inl (Raised e), h)"

text \<open>
  \<open>PyRun_SimpleFile\<close> on an open script: 0 when the script ran to its end, -1 when an
  exception ended it; undefined behaviour inside a host call ends the process.
\<close>

fun PyRun_SimpleFile :: "stmt list \<Rightarrow> host \<Rightarrow> ((failure + int) \<times> host) option" where
  "PyRun_SimpleFile [] h = Some (Inr 0, h)"
| "PyRun_SimpleFile (s # ss) h =
     (case exec_stmt s h of
        None \<Rightarrow> None
      | Some (Inl (Raised e), h') \<Rightarrow> Some (Inr (- 1), h')
      | Some (Inl (Undefined u), h') \<Rightarrow> Some (Inl (Undefined u), h')
      | Some (Inr v, h') \<Rightarrow> PyRun_SimpleFile ss h')"

text \<open>
  The state of the embedded runtime that \<open>processFile\<close> touches, and the environment
  it reads: \<open>__argv[0]\<close>, its parent directory, which paths exist, and the scripts that
  \<open>fopen\<close> can open (\<open>None\<close>: \<open>fopen\<close> returns a null pointer).
\<close>

record runtime =
  program_name :: "string option"
  python_home :: "string option"
  inittab :: "string list"
  initialized :: bool
  sys_path :: "string list"
  script_open :: bool

record env =
  argv0 :: string
  parent_path :: string
  path_exists :: "string \<Rightarrow> bool"
  fopen :: "string \<Rightarrow> stmt list option"

text \<open>
  \<open>processFile\<close> does not test the result of \<open>fopen\<close>: a null \<open>FILE\<close> pointer goes
  to \<open>PyRun_SimpleFile\<close> and to \<open>fclose\<close>, which is undefined behaviour. Its only
  \<open>return\<close> statement returns \<open>true\<close>.
\<close>

definition processFile ::
  "env \<Rightarrow> string \<Rightarrow> runtime \<times> host \<Rightarrow> ((failure + bool) \<times> runtime \<times> host) option" where
  "processFile e scriptPath w =
     (let (py, h) = w;
          py1 = py\<lparr>program_name := Some (argv0 e)\<rparr>;
          py2 = (if path_exists e (parent_path e @ ''/lib/python3.8'')
                 then py1\<lparr>python_home := Some (parent_path e)\<rparr> else py1);
          py3 = py2\<lparr>inittab := inittab py2 @ [''_imhex'']\<rparr>;
          py4 = py3\<lparr>initialized := True\<rparr>;
          py5 = py4\<lparr>sys_path := ''lib'' # sys_path py4\<rparr>
      in case fopen e scriptPath of
           None \<Rightarrow> Some (Inl (Undefined ''PyRun_SimpleFile on a null FILE pointer''), py5, h)
         | Some scriptFile \<Rightarrow>
             (case PyRun_SimpleFile scriptFile h of
                None \<Rightarrow> None
              | Some (Inl u, h') \<Rightarrow> Some (Inl u, py5\<lparr>script_open := True\<rparr>, h')
              | Some (Inr rc, h') \<Rightarrow>
                  Some (Inr True, py5\<lparr>script_open := False, initialized := False\<rparr>, h')))"

section \<open>Properties of argument parsing\<close>

lemma bounds_patch: "arg_bounds ''K|y#'' None 0 = (1, 2)"
  by (simp add: Py_ISALPHA_def)

lemma bounds_bookmark: "arg_bounds ''K|n|s|s'' None 0 = (3, 4)"
  by (simp add: Py_ISALPHA_def)

lemma parse_patch_two:
  "PyArg_ParseTuple [PyLong v, PyBytes b] ''K|y#'' = Some [C_ulonglong (word_of_int v), C_buf b]"
  by (simp add: PyArg_ParseTuple_def Py_ISALPHA_def)

lemma parse_patch_one:
  "PyArg_ParseTuple [PyLong v] ''K|y#'' = Some [C_ulonglong (word_of_int v)]"
  by (simp add: PyArg_ParseTuple_def Py_ISALPHA_def)

lemma parse_bookmark_four:
  "PyArg_ParseTuple [PyLong a, PyLong n, PyUnicode s, PyUnicode t] ''K|n|s|s'' =
     (if - (2 ^ 63) \<le> n \<and> n < 2 ^ 63 \<and> CHR 0x00 \<notin> set s \<and> CHR 0x00 \<notin> set t
      then Some [C_ulonglong (word_of_int a), C_ssize (word_of_int n), C_str s, C_str t]
      else None)"
  by (simp add: PyArg_ParseTuple_def Py_ISALPHA_def)

lemma parse_bookmark_three:
  "PyArg_ParseTuple [PyLong a, PyLong n, PyUnicode s] ''K|n|s|s'' =
     (if - (2 ^ 63) \<le> n \<and> n < 2 ^ 63 \<and> CHR 0x00 \<notin> set s
      then Some [C_ulonglong (word_of_int a), C_ssize (word_of_int n), C_str s]
      else None)"
  by (simp add: PyArg_ParseTuple_def Py_ISALPHA_def)

lemma convert_args_length:
  "convert_args format args = Some vs \<Longrightarrow> length vs = length args"
  by (induction args arbitrary: format vs) (auto split: option.splits prod.splits)

lemma parse_length:
  "PyArg_ParseTuple args format = Some vs \<Longrightarrow> length vs = length args"
  by (auto simp: PyArg_ParseTuple_def Let_def convert_args_length split: prod.splits if_splits)

section \<open>Properties of \<open>patch\<close>\<close>

text \<open>The three outcomes of \<open>patch\<close> when the buffer argument is present, in the order
  of the checks.\<close>

lemma addPatch_present:
  "Py_addPatch u [PyLong v, PyBytes b] h =
     (if b = [] then (Inl (Raised (TypeError ''Invalid patch provided'')), h)
      else if getActualSize (s_dataProvider h) \<le> unat (word_of_int v :: u64)
        then (Inl (Raised (IndexError ''address out of range'')), h)
      else (Inr PyNone,
            h\<lparr>s_dataProvider := provider_write (s_dataProvider h) (word_of_int v) b\<rparr>))"
  by (simp add: Py_addPatch_def parse_patch_two)

text \<open>Without the buffer argument the outcome depends on what the uninitialised locals
  hold.\<close>

lemma addPatch_absent:
  "Py_addPatch (p, c) [PyLong v] h =
     (if p = Nullptr \<or> c = 0 then (Inl (Raised (TypeError ''Invalid patch provided'')), h)
      else if getActualSize (s_dataProvider h) \<le> unat (word_of_int v :: u64)
        then (Inl (Raised (IndexError ''address out of range'')), h)
      else (case p of
              Ptr b \<Rightarrow> (Inr PyNone,
                h\<lparr>s_dataProvider := provider_write (s_dataProvider h) (word_of_int v) b\<rparr>)
            | _ \<Rightarrow> (Inl (Undefined ''read through an indeterminate pointer''), h)))"
  by (simp add: Py_addPatch_def parse_patch_one)

lemma provider_write_range:
  assumes "b \<noteq> []" and "unat a + length b \<le> getActualSize p"
  shows "take (length b) (drop (unat a) (provider_write p a b)) = b"
  using assms by (simp add: provider_write_def getActualSize_def)

lemma provider_write_size: "getActualSize (provider_write p a b) = getActualSize p"
  by (simp add: provider_write_def getActualSize_def)

text \<open>No failing call of \<open>patch\<close> touches the host state.\<close>

lemma patch_error_keeps_host:
  "fst (Py_addPatch u args h) = Inl e \<Longrightarrow> snd (Py_addPatch u args h) = h"
  by (auto simp: Py_addPatch_def
           split: option.splits list.splits cval.splits prod.splits if_splits pointer.splits)

text \<open>An empty buffer is refused before the address is looked at.\<close>

lemma patch_empty_buffer:
  "Py_addPatch u [PyLong v, PyBytes []] h =
     (Inl (Raised (TypeError ''Invalid patch provided'')), h)"
  by (simp add: addPatch_present)

text \<open>
  C3, as stated, fails where the buffer reaches beyond the end of the provider: on a
  provider of one byte, \<open>patch(0, b)\<close> with a buffer of two bytes raises no error, and
  the bytes at \<open>[0, 2)\<close> are not the buffer.
\<close>

theorem patch_overrun_counterexample:
  "unat (0 :: u64) < getActualSize [0 :: u8] \<and> [1, 2 :: u8] \<noteq> []
   \<and> take (length [1, 2 :: u8]) (drop (unat (0 :: u64))
        (s_dataProvider (snd (Py_addPatch (Nullptr, 0) [PyLong 0, PyBytes [1, 2]]
           \<lparr>s_filePath = ''f'', s_dataProvider = [0], events = []\<rparr>)))) \<noteq> [1, 2]"
  by (simp add: addPatch_present provider_write_def getActualSize_def)

text \<open>
  C3 (amended): for every address \<open>a < provider.size()\<close> and every non-empty buffer
  \<open>b\<close>, \<open>patch(a, b)\<close> raises no error and changes the host state by exactly one write
  of \<open>b\<close> at \<open>a\<close> through the bounded write of the provider; when
  \<open>a + len(b) \<le> provider.size()\<close> the bytes of the provider in \<open>[a, a + len(b))\<close> are
  equal to \<open>b\<close> afterwards.
\<close>

theorem patch_in_range:
  assumes "unat (a :: u64) < getActualSize (s_dataProvider h)" and "b \<noteq> []"
  shows "Py_addPatch u [PyLong (uint a), PyBytes b] h =
           (Inr PyNone, h\<lparr>s_dataProvider := provider_write (s_dataProvider h) a b\<rparr>)
         \<and> (unat a + length b \<le> getActualSize (s_dataProvider h) \<longrightarrow>
              take (length b)
                (drop (unat a)
                   (s_dataProvider (snd (Py_addPatch u [PyLong (uint a), PyBytes b] h)))) = b)"
  using assms by (simp add: addPatch_present provider_write_range)

text \<open>Two bytes written at address 1 of a provider of three bytes.\<close>

theorem patch_in_range_witness:
  "Py_addPatch (Nullptr, 0) [PyLong (uint (1 :: u64)), PyBytes [7, 8]]
     \<lparr>s_filePath = ''f'', s_dataProvider = [0, 0, 0], events = []\<rparr>
   = (Inr PyNone, \<lparr>s_filePath = ''f'', s_dataProvider = [0, 7, 8], events = []\<rparr>)"
  using patch_in_range
    [of 1 "\<lparr>s_filePath = ''f'', s_dataProvider = [0, 0, 0], events = []\<rparr>" "[7, 8]"
        "(Nullptr, 0)"]
  by (simp add: provider_write_def getActualSize_def)

text \<open>
  C4, as stated, fails for the empty buffer: with the address beyond the provider,
  \<open>patch\<close> raises the error of the buffer check, not the range error.
\<close>

theorem patch_empty_out_of_range_counterexample:
  "unat (5 :: u64) \<ge> getActualSize [0 :: u8]
   \<and> fst (Py_addPatch (Nullptr, 0) [PyLong 5, PyBytes []]
        \<lparr>s_filePath = ''f'', s_dataProvider = [0], events = []\<rparr>)
     = Inl (Raised (TypeError ''Invalid patch provided''))
   \<and> fst (Py_addPatch (Nullptr, 0) [PyLong 5, PyBytes []]
        \<lparr>s_filePath = ''f'', s_dataProvider = [0], events = []\<rparr>)
     \<noteq> Inl (Raised (IndexError ''address out of range''))"
  by (simp add: addPatch_present getActualSize_def)

text \<open>
  C4 (amended): for every address \<open>a \<ge> provider.size()\<close> and every buffer \<open>b\<close>,
  \<open>patch(a, b)\<close> raises an error and leaves the host state, the provider included, as
  it was: the range error (\<open>IndexError\<close>, address out of range) when \<open>b\<close> is not empty,
  the error of the buffer check when \<open>b\<close> is empty.
\<close>

theorem patch_out_of_range:
  assumes "unat (a :: u64) \<ge> getActualSize (s_dataProvider h)"
  shows "Py_addPatch u [PyLong (uint a), PyBytes b] h =
           (Inl (Raised (if b = [] then TypeError ''Invalid patch provided''
                         else IndexError ''address out of range'')), h)"
  using assms by (simp add: addPatch_present)

text \<open>Address 3 on a provider of three bytes, with a buffer of one byte.\<close>

theorem patch_out_of_range_witness:
  "Py_addPatch (Nullptr, 0) [PyLong (uint (3 :: u64)), PyBytes [7]]
     \<lparr>s_filePath = ''f'', s_dataProvider = [0, 0, 0], events = []\<rparr>
   = (Inl (Raised (IndexError ''address out of range'')),
      \<lparr>s_filePath = ''f'', s_dataProvider = [0, 0, 0], events = []\<rparr>)"
  using patch_out_of_range
    [of "\<lparr>s_filePath = ''f'', s_dataProvider = [0, 0, 0], events = []\<rparr>" 3 "(Nullptr, 0)"
        "[7]"]
  by (simp add: getActualSize_def)

text \<open>
  C10: the buffer check comes before the range check, so a call with an invalid buffer
  and an address beyond the provider should raise the error of the buffer check. With
  the buffer argument missing the locals are indeterminate: here they hold a non-null
  pointer and the count 1, the buffer check passes and \<open>patch(5)\<close> on a provider of one
  byte raises the range error.
\<close>

theorem patch_missing_buffer_range_error:
  "unat (5 :: u64) \<ge> getActualSize [0 :: u8]
   \<and> Py_addPatch (Indeterminate, 1) [PyLong 5]
        \<lparr>s_filePath = ''f'', s_dataProvider = [0], events = []\<rparr>
     = (Inl (Raised (IndexError ''address out of range'')),
        \<lparr>s_filePath = ''f'', s_dataProvider = [0], events = []\<rparr>)"
  by (simp add: addPatch_absent getActualSize_def)

section \<open>Properties of \<open>add_bookmark\<close>\<close>

text \<open>No failing call of \<open>add_bookmark\<close> posts an event.\<close>

lemma bookmark_error_keeps_host:
  "fst (Py_addBookmark args h) = Inl e \<Longrightarrow> snd (Py_addBookmark args h) = h"
  by (auto simp: Py_addBookmark_def
           split: option.splits list.splits cval.splits prod.splits if_splits pointer.splits)

text \<open>With fewer than four arguments an exception is raised and nothing is posted.\<close>

lemma bookmark_absent_text_raises:
  assumes "length args < 4"
  shows "\<exists>e. Py_addBookmark args h = (Inl (Raised e), h)"
proof (cases "PyArg_ParseTuple args ''K|n|s|s''")
  case None
  then show ?thesis by (simp add: Py_addBookmark_def)
next
  case (Some vals)
  then have "length vals < 4" using assms parse_length by fastforce
  then show ?thesis using Some
    by (auto simp: Py_addBookmark_def Let_def split: list.splits cval.splits pointer.splits)
qed

text \<open>
  C7: a call of \<open>add_bookmark\<close> without the comment should raise an argument error.
  The parse of \<open>add_bookmark(0, 1, "n")\<close> succeeds, and the check for the null comment
  raises \<open>IndexError\<close> with the message of the range check of \<open>patch\<close>; no event is
  posted.
\<close>

theorem bookmark_missing_comment_index_error:
  "Py_addBookmark [PyLong 0, PyLong 1, PyUnicode ''n'']
     \<lparr>s_filePath = ''f'', s_dataProvider = [0], events = []\<rparr>
   = (Inl (Raised (IndexError ''address out of range'')),
      \<lparr>s_filePath = ''f'', s_dataProvider = [0], events = []\<rparr>)"
  by (simp add: Py_addBookmark_def parse_bookmark_three)

text \<open>
  With a size that fits a \<open>Py_ssize_t\<close> and texts without an embedded NUL character,
  \<open>add_bookmark\<close> raises no error and appends exactly one add-bookmark event, whose
  bookmark has the address, size, name and comment supplied; the file path and the
  provider are unchanged.
\<close>

lemma bookmark_posted:
  assumes "unat (sz :: u64) < 2 ^ 63"
    and "CHR 0x00 \<notin> set nm" and "CHR 0x00 \<notin> set cm"
  shows "Py_addBookmark [PyLong (uint a), PyLong (uint sz), PyUnicode nm, PyUnicode cm] h =
           (Inr PyNone,
            h\<lparr>events := events h @
               [AddBookmark \<lparr>region = \<lparr>address = a, region_size = sz\<rparr>,
                             name = nm, comment = cm\<rparr>]\<rparr>)"
proof -
  have "int (unat sz) < int (2 ^ 63)" using assms(1) by (simp only: of_nat_less_iff)
  then have "int (unat sz) < 2 ^ 63" by simp
  moreover have "uint sz = int (unat sz)" by (rule uint_nat)
  ultimately have "uint sz < 2 ^ 63" by (simp only:)
  moreover have "- (2 ^ 63) \<le> uint sz" by (rule order_trans [of _ 0]) simp_all
  ultimately show ?thesis using assms(2,3)
    by (simp add: Py_addBookmark_def parse_bookmark_four postEvent_def)
qed

text \<open>A bookmark of four bytes at address 16.\<close>

lemma bookmark_posted_example:
  "Py_addBookmark
     [PyLong 16, PyLong 4, PyUnicode ''hdr'', PyUnicode ''magic'']
     \<lparr>s_filePath = ''f'', s_dataProvider = [0], events = []\<rparr>
   = (Inr PyNone,
      \<lparr>s_filePath = ''f'', s_dataProvider = [0],
        events = [AddBookmark \<lparr>region = \<lparr>address = 16, region_size = 4\<rparr>,
                             name = ''hdr'', comment = ''magic''\<rparr>]\<rparr>)"
  by (simp add: Py_addBookmark_def parse_bookmark_four postEvent_def)

text \<open>The size is read as a signed count into the unsigned field: a size of \<open>-1\<close> is
  accepted and posted as \<open>2^64 - 1\<close>.\<close>

lemma bookmark_negative_size:
  "Py_addBookmark
     [PyLong 0, PyLong (- 1), PyUnicode ''a'', PyUnicode ''b'']
     \<lparr>s_filePath = ''f'', s_dataProvider = [0], events = []\<rparr>
   = (Inr PyNone,
      \<lparr>s_filePath = ''f'', s_dataProvider = [0],
        events = [AddBookmark \<lparr>region = \<lparr>address = 0, region_size = 18446744073709551615\<rparr>,
                             name = ''a'', comment = ''b''\<rparr>]\<rparr>)"
  by (simp add: Py_addBookmark_def parse_bookmark_four postEvent_def)

text \<open>A name with an embedded NUL character is refused by the parse.\<close>

lemma bookmark_embedded_nul:
  "Py_addBookmark
     [PyLong 0, PyLong 1, PyUnicode [CHR ''a'', CHR 0x00, CHR ''b''], PyUnicode ''c'']
     \<lparr>s_filePath = ''f'', s_dataProvider = [0], events = []\<rparr>
   = (Inl (Raised PyErr_BadArgument),
      \<lparr>s_filePath = ''f'', s_dataProvider = [0], events = []\<rparr>)"
  by (simp add: Py_addBookmark_def parse_bookmark_four)

text \<open>
  C8: a call of \<open>add_bookmark\<close> that supplies address, size, name and comment should
  post exactly one add-bookmark event with these fields and raise no error, the size
  being an unsigned 64-bit value. The size is parsed with the format unit of a signed
  \<open>Py_ssize_t\<close>, where the address beside it is parsed as unsigned: for the size
  \<open>2^63\<close> the parse of \<open>add_bookmark(0, 2^63, "a", "b")\<close> fails, an error is raised
  and no event is posted.
\<close>

theorem bookmark_large_size_rejected:
  "Py_addBookmark
     [PyLong (uint (0 :: u64)), PyLong (uint (2 ^ 63 :: u64)), PyUnicode ''a'', PyUnicode ''b'']
     \<lparr>s_filePath = ''f'', s_dataProvider = [0], events = []\<rparr>
   = (Inl (Raised PyErr_BadArgument),
      \<lparr>s_filePath = ''f'', s_dataProvider = [0], events = []\<rparr>)"
  by (simp add: Py_addBookmark_def parse_bookmark_four)

section \<open>Properties of the translator\<close>

lemma member_line_ok:
  "member_line (PyUnicode f, PyType (Type t (Some ''ImHexType'') True d)) =
     Inr (''   '' @ t @ '' '' @ f @ '';\<newline>'')"
  by (simp add: member_line_def PyObject_CallObject_def PyUnicode_AsUTF8_def
                extends_ImHexType_def)

text \<open>A class that passes the checks before the loop: what is left is the loop.\<close>

lemma createStructureType_checked:
  assumes "tp_call_ok t" and "extends_ImHexType t" and "tp_dict t = Some dict"
    and "map_of dict ''__annotations__'' = Some (PyDict list)"
  shows "createStructureType keyword (PyType t # args) h =
     (case member_loop list 0 (keyword @ '' '' @ tp_name t @ '' {\<newline>'') of
        None \<Rightarrow> None
      | Some (Inl e) \<Rightarrow> Some (Inl e, h)
      | Some (Inr code) \<Rightarrow>
          Some (Inr PyNone, postEvent (AppendPatternLanguageCode (code @ ''};\<newline>'')) h))"
  using assms by (simp add: createStructureType_def PyObject_CallObject_def PyDict_Items_def)

lemma createStructureType_class:
  assumes "map_of dict ''__annotations__'' = Some (PyDict list)"
  shows "createStructureType keyword
           (PyType (Type c (Some ''ImHexType'') True (Some dict)) # args) h =
     (case member_loop list 0 (keyword @ '' '' @ c @ '' {\<newline>'') of
        None \<Rightarrow> None
      | Some (Inl e) \<Rightarrow> Some (Inl e, h)
      | Some (Inr code) \<Rightarrow>
          Some (Inr PyNone, postEvent (AppendPatternLanguageCode (code @ ''};\<newline>'')) h))"
  using assms
  by (simp add: createStructureType_checked [where dict = dict and list = list]
                extends_ImHexType_def)

text \<open>A class that fails one of the checks before the loop returns at that check.\<close>

lemma createStructureType_unchecked:
  assumes "\<not> (tp_call_ok t \<and> extends_ImHexType t)"
  shows "\<exists>e. createStructureType keyword (PyType t # args) h = Some (Inl (Raised e), h)"
  using assms by (auto simp: createStructureType_def PyObject_CallObject_def)

text \<open>A translation that fails posts nothing.\<close>

lemma createStructureType_error_posts_nothing:
  "createStructureType keyword args h = Some (Inl e, h') \<Longrightarrow> h' = h"
  by (auto simp: createStructureType_def
           split: list.splits option.splits if_splits sum.splits)

subsection \<open>The 16-bit counter\<close>

lemma u16_succ: "unat (i :: u16) < n \<Longrightarrow> n < 65536 \<Longrightarrow> unat (i + 1) = Suc (unat i)"
  by (simp add: unat_word_ariths)

text \<open>Below 65536 items the counter does not wrap and the distance to the end of the
  list decreases.\<close>

lemma member_loop_terminates_from:
  assumes "length list < 65536"
  shows "\<exists>r. member_loop list i code = Some r"
proof (induction "length list - unat i" arbitrary: i code rule: less_induct)
  case less
  show ?case
  proof (cases "unat i < length list")
    case False
    then show ?thesis by (subst member_loop.simps) simp
  next
    case True
    show ?thesis
    proof (cases "member_line (list ! unat i)")
      case (Inl e)
      with True show ?thesis by (subst member_loop.simps) simp
    next
      case (Inr line)
      have "unat (i + 1) = Suc (unat i)" using True assms by (rule u16_succ)
      then have "length list - unat (i + 1) < length list - unat i" using True by simp
      then obtain r where "member_loop list (i + 1) (code @ line) = Some r"
        using less by blast
      with True Inr show ?thesis by (subst member_loop.simps) simp
    qed
  qed
qed

text \<open>From 65536 items on the counter stays below the length: a loop whose first 65536
  items all give a line has no result.\<close>

lemma member_loop_no_result:
  assumes "member_loop list i code = Some r"
  shows "\<not> (65536 \<le> length list \<and> (\<forall>k<65536. \<exists>line. member_line (list ! k) = Inr line))"
proof (rule member_loop.raw_induct [OF _ assms])
  fix f :: "(pyobj \<times> pyobj) list \<Rightarrow> u16 \<Rightarrow> string \<Rightarrow> (failure + string) option"
  fix l :: "(pyobj \<times> pyobj) list" and i :: u16 and c :: string and r :: "failure + string"
  assume IH: "\<And>l' i' c' y. f l' i' c' = Some y \<Longrightarrow>
      \<not> (65536 \<le> length l' \<and> (\<forall>k<65536. \<exists>line. member_line (l' ! k) = Inr line))"
  assume step: "(if unat i < length l
      then case member_line (l ! unat i) of Inl e \<Rightarrow> Some (Inl e)
           | Inr line \<Rightarrow> f l (i + 1) (c @ line)
      else Some (Inr c)) = Some r"
  show "\<not> (65536 \<le> length l \<and> (\<forall>k<65536. \<exists>line. member_line (l ! k) = Inr line))"
  proof
    assume v: "65536 \<le> length l \<and> (\<forall>k<65536. \<exists>line. member_line (l ! k) = Inr line)"
    have "unat i < 2 ^ LENGTH(16)" by (rule unsigned_less)
    then have "unat i < 65536" by simp
    with v obtain line where "member_line (l ! unat i) = Inr line" and "unat i < length l"
      by auto
    with step have "f l (i + 1) (c @ line) = Some r" by simp
    from IH [OF this] v show False by blast
  qed
qed

lemma member_loop_diverges_from:
  assumes "65536 \<le> length list"
    and "\<forall>k<65536. \<exists>line. member_line (list ! k) = Inr line"
  shows "member_loop list i code = None"
proof (cases "member_loop list i code")
  case None
  then show ?thesis .
next
  case (Some r)
  from member_loop_no_result [OF this] assms show ?thesis by blast
qed

text \<open>From 65536 items on the loop never reaches its end: whatever it returns is the
  exit of a failing item.\<close>

lemma member_loop_never_completes:
  assumes "member_loop list i code = Some r"
  shows "65536 \<le> length list \<longrightarrow> (\<exists>e. r = Inl e)"
proof (rule member_loop.raw_induct [OF _ assms])
  fix f :: "(pyobj \<times> pyobj) list \<Rightarrow> u16 \<Rightarrow> string \<Rightarrow> (failure + string) option"
  fix l :: "(pyobj \<times> pyobj) list" and i :: u16 and c :: string and r :: "failure + string"
  assume IH: "\<And>l' i' c' y. f l' i' c' = Some y \<Longrightarrow> 65536 \<le> length l' \<longrightarrow> (\<exists>e. y = Inl e)"
  assume step: "(if unat i < length l
      then case member_line (l ! unat i) of Inl e \<Rightarrow> Some (Inl e)
           | Inr line \<Rightarrow> f l (i + 1) (c @ line)
      else Some (Inr c)) = Some r"
  show "65536 \<le> length l \<longrightarrow> (\<exists>e. r = Inl e)"
  proof
    assume big: "65536 \<le> length l"
    have "unat i < 2 ^ LENGTH(16)" by (rule unsigned_less)
    then have "unat i < length l" using big by simp
    with step IH big show "\<exists>e. r = Inl e"
      by (cases "member_line (l ! unat i)") auto
  qed
qed

text \<open>The loop leaves at the first item that fails, provided the counter reaches it.\<close>

lemma member_loop_first_error_from:
  assumes "k < length list" and "k < 65536"
    and "\<forall>j<k. \<exists>line. member_line (list ! j) = Inr line"
    and "member_line (list ! k) = Inl e"
    and "unat i \<le> k"
  shows "member_loop list i code = Some (Inl e)"
  using assms(5)
proof (induction "k - unat i" arbitrary: i code rule: less_induct)
  case less
  show ?case
  proof (cases "unat i = k")
    case True
    with assms show ?thesis by (subst member_loop.simps) simp
  next
    case False
    with less.prems have lt: "unat i < k" by simp
    with assms obtain line where line: "member_line (list ! unat i) = Inr line" by blast
    have suc: "unat (i + 1) = Suc (unat i)" using lt assms(2) by (rule u16_succ)
    then have "member_loop list (i + 1) (code @ line) = Some (Inl e)"
      using lt by (intro less.hyps) simp_all
    with lt assms(1) line show ?thesis by (subst member_loop.simps) simp
  qed
qed

text \<open>
  C9, as stated, fails for a class of 65536 members whose first member is annotated
  with a type that does not extend \<open>ImHexType\<close>: the first iteration leaves the loop
  and the translation returns with a \<open>TypeError\<close>.
\<close>

theorem translation_large_class_early_exit_counterexample:
  "65536 \<le> length ((PyUnicode ''f'', PyType (Type ''int'' (Some ''object'') True None))
                     # replicate 65535
                         (PyUnicode ''g'', PyType (Type ''T'' (Some ''ImHexType'') True None)))
   \<and> createStructureType ''struct''
     [PyType (Type ''C'' (Some ''ImHexType'') True
        (Some [(''__annotations__'',
           PyDict ((PyUnicode ''f'', PyType (Type ''int'' (Some ''object'') True None))
                     # replicate 65535
                         (PyUnicode ''g'', PyType (Type ''T'' (Some ''ImHexType'') True None))))]))]
     \<lparr>s_filePath = ''f'', s_dataProvider = [], events = []\<rparr>
   = Some (Inl (Raised (TypeError ''member needs to have a annotation extending from ImHexType'')),
           \<lparr>s_filePath = ''f'', s_dataProvider = [], events = []\<rparr>)"
  apply (rule conjI)
   apply simp
  apply (subst createStructureType_class
      [where list = "(PyUnicode ''f'', PyType (Type ''int'' (Some ''object'') True None))
                     # replicate 65535
                         (PyUnicode ''g'', PyType (Type ''T'' (Some ''ImHexType'') True None))"])
   apply simp
  apply (subst member_loop.simps)
  apply (simp add: member_line_def PyObject_CallObject_def PyUnicode_AsUTF8_def
                   extends_ImHexType_def)
  done

text \<open>
  C9 (amended): the member loop counts with a 16-bit unsigned counter compared against
  the length of the annotation list. For every guest class whose annotation mapping has
  fewer than 65536 entries the translation terminates; for every class that passes the
  class checks and has 65536 or more annotated members whose first 65536 members all
  pass the member check, the counter wraps around before it reaches the length and the
  translation never terminates.
\<close>

theorem translation_u16_counter:
  assumes "tp_dict t = Some dict"
    and "map_of dict ''__annotations__'' = Some (PyDict list)"
  shows "(length list < 65536 \<longrightarrow>
            (\<exists>r. createStructureType keyword [PyType t] h = Some r))
       \<and> (65536 \<le> length list \<and> tp_call_ok t \<and> extends_ImHexType t
            \<and> (\<forall>k<65536. \<exists>line. member_line (list ! k) = Inr line) \<longrightarrow>
            createStructureType keyword [PyType t] h = None)"
proof (intro conjI impI)
  assume short: "length list < 65536"
  show "\<exists>r. createStructureType keyword [PyType t] h = Some r"
  proof (cases "tp_call_ok t \<and> extends_ImHexType t")
    case False
    then show ?thesis using createStructureType_unchecked by blast
  next
    case True
    obtain r where "member_loop list 0 (keyword @ '' '' @ tp_name t @ '' {\<newline>'') = Some r"
      using short member_loop_terminates_from by blast
    with True show ?thesis
      by (cases r) (simp_all add: createStructureType_checked [OF _ _ assms])
  qed
next
  assume big: "65536 \<le> length list \<and> tp_call_ok t \<and> extends_ImHexType t
            \<and> (\<forall>k<65536. \<exists>line. member_line (list ! k) = Inr line)"
  then have "member_loop list 0 (keyword @ '' '' @ tp_name t @ '' {\<newline>'') = None"
    using member_loop_diverges_from by blast
  with big show "createStructureType keyword [PyType t] h = None"
    by (simp add: createStructureType_checked [OF _ _ assms])
qed

text \<open>A class of one member, whose translation returns, and a class of 65536 valid
  members, whose translation does not.\<close>

theorem translation_u16_counter_witness:
  "createStructureType ''struct''
     [PyType (Type ''C'' (Some ''ImHexType'') True
        (Some [(''__annotations__'',
           PyDict [(PyUnicode ''g'', PyType (Type ''T'' (Some ''ImHexType'') True None))])]))]
     \<lparr>s_filePath = ''f'', s_dataProvider = [], events = []\<rparr> \<noteq> None
   \<and> createStructureType ''struct''
     [PyType (Type ''C'' (Some ''ImHexType'') True
        (Some [(''__annotations__'',
           PyDict (replicate 65536
             (PyUnicode ''g'', PyType (Type ''T'' (Some ''ImHexType'') True None))))]))]
     \<lparr>s_filePath = ''f'', s_dataProvider = [], events = []\<rparr> = None"
  using
    translation_u16_counter [of
      "Type ''C'' (Some ''ImHexType'') True
        (Some [(''__annotations__'',
           PyDict [(PyUnicode ''g'', PyType (Type ''T'' (Some ''ImHexType'') True None))])])"
      "[(''__annotations__'',
           PyDict [(PyUnicode ''g'', PyType (Type ''T'' (Some ''ImHexType'') True None))])]"
      "[(PyUnicode ''g'', PyType (Type ''T'' (Some ''ImHexType'') True None))]"
      "''struct''" "\<lparr>s_filePath = ''f'', s_dataProvider = [], events = []\<rparr>"]
    translation_u16_counter [of
      "Type ''C'' (Some ''ImHexType'') True
        (Some [(''__annotations__'',
           PyDict (replicate 65536
             (PyUnicode ''g'', PyType (Type ''T'' (Some ''ImHexType'') True None))))])"
      "[(''__annotations__'',
           PyDict (replicate 65536
             (PyUnicode ''g'', PyType (Type ''T'' (Some ''ImHexType'') True None))))]"
      "replicate 65536 (PyUnicode ''g'', PyType (Type ''T'' (Some ''ImHexType'') True None))"
      "''struct''" "\<lparr>s_filePath = ''f'', s_dataProvider = [], events = []\<rparr>"]
  by (simp add: member_line_ok extends_ImHexType_def)

subsection \<open>The generated declaration\<close>





subsection \<open>Members that fail the check\<close>

text \<open>A member whose annotated type can be instantiated but does not extend
  \<open>ImHexType\<close> ends the translation with a \<open>TypeError\<close> and nothing posted, provided
  the counter reaches it.\<close>

lemma translation_rejects_member:
  assumes "map_of dict ''__annotations__'' = Some (PyDict list)"
    and "k < length list" and "k < 65536"
    and "\<forall>j<k. \<exists>line. member_line (list ! j) = Inr line"
    and "snd (list ! k) = PyType t" and "tp_call_ok t" and "\<not> extends_ImHexType t"
  shows "createStructureType keyword [PyType (Type c (Some ''ImHexType'') True (Some dict))] h =
           Some (Inl (Raised (TypeError
                   ''member needs to have a annotation extending from ImHexType'')), h)"
proof -
  have "member_line (list ! k) =
          Inl (Raised (TypeError ''member needs to have a annotation extending from ImHexType''))"
    using assms(5-7) by (simp add: member_line_def PyObject_CallObject_def)
  then have "member_loop list 0 (keyword @ '' '' @ c @ '' {\<newline>'') =
          Some (Inl (Raised (TypeError
                   ''member needs to have a annotation extending from ImHexType'')))"
    using assms(2-4) by (intro member_loop_first_error_from [where k = k]) simp_all
  then show ?thesis by (simp add: createStructureType_class [OF assms(1)])
qed

text \<open>
  C6: a member whose annotated type cannot be instantiated with no arguments should
  end the translation with a \<open>TypeError\<close>. The error branch of the loop passes the
  null instance to \<open>Py_DECREF\<close>: for a class with the one member \<open>f: X\<close>, where \<open>X\<close>
  cannot be instantiated, the call does not return an error but dereferences a null
  pointer. No event is posted.
\<close>

theorem member_not_instantiable_crash:
  "createStructureType ''struct''
     [PyType (Type ''C'' (Some ''ImHexType'') True
        (Some [(''__annotations__'',
           PyDict [(PyUnicode ''f'', PyType (Type ''X'' (Some ''ImHexType'') False None))])]))]
     \<lparr>s_filePath = ''f'', s_dataProvider = [], events = []\<rparr>
   = Some (Inl (Undefined ''Py_DECREF of a null pointer''),
           \<lparr>s_filePath = ''f'', s_dataProvider = [], events = []\<rparr>)"
  apply (subst createStructureType_class
      [where list = "[(PyUnicode ''f'', PyType (Type ''X'' (Some ''ImHexType'') False None))]"])
   apply simp
  apply (subst member_loop.simps)
  apply (simp add: member_line_def PyObject_CallObject_def PyUnicode_AsUTF8_def)
  done

section \<open>Properties of the lifecycle manager\<close>

lemma processFile_open_fails:
  assumes "fopen e scriptPath = None"
  shows "processFile e scriptPath (py, h) =
           Some (Inl (Undefined ''PyRun_SimpleFile on a null FILE pointer''),
                 (if path_exists e (parent_path e @ ''/lib/python3.8'')
                  then py\<lparr>program_name := Some (argv0 e), python_home := Some (parent_path e)\<rparr>
                  else py\<lparr>program_name := Some (argv0 e)\<rparr>)
                   \<lparr>inittab := inittab py @ [''_imhex''], initialized := True,
                     sys_path := ''lib'' # sys_path py\<rparr>, h)"
  using assms by (simp add: processFile_def Let_def)

text \<open>Whenever \<open>processFile\<close> returns, it returns \<open>true\<close>, with the script closed and
  the runtime finalized: this covers the script that runs to its end and the script that
  an exception ends.\<close>

lemma processFile_returns_finalized:
  assumes "processFile e scriptPath w = Some (Inr r, py', h')"
  shows "r \<and> \<not> initialized py' \<and> \<not> script_open py'"
  using assms
  by (auto simp: processFile_def Let_def split: prod.splits option.splits sum.splits)

text \<open>A script that makes no host call completes with no event posted and the runtime
  finalized.\<close>

lemma processFile_empty_script:
  assumes "fopen e scriptPath = Some []"
  shows "\<exists>py'. processFile e scriptPath (py, h) = Some (Inr True, py', h) \<and> \<not> initialized py'"
  using assms by (simp add: processFile_def Let_def)

text \<open>A script that an exception of its own ends: \<open>processFile\<close> returns \<open>true\<close>
  with the runtime finalized.\<close>

lemma processFile_guest_error:
  assumes "fopen e scriptPath = Some (Raise x # ss)"
  shows "\<exists>py'. processFile e scriptPath (py, h) = Some (Inr True, py', h) \<and> \<not> initialized py'"
  using assms by (simp add: processFile_def Let_def)

text \<open>
  C1: the runtime should be finalized before \<open>processFile\<close> returns on every path,
  the failure to open the script included. For a script that cannot be opened the null
  \<open>FILE\<close> pointer is used unchecked: the call ends in undefined behaviour with the
  runtime initialized and never finalized.
\<close>

theorem processFile_missing_script_not_finalized:
  "map_option (\<lambda>r. (fst r, initialized (fst (snd r))))
     (processFile
        \<lparr>argv0 = ''imhex'', parent_path = ''.'', path_exists = (\<lambda>p. False),
          fopen = (\<lambda>p. None)\<rparr>
        ''missing.py''
        (\<lparr>program_name = None, python_home = None, inittab = [], initialized = False,
          sys_path = [], script_open = False\<rparr>,
         \<lparr>s_filePath = ''f'', s_dataProvider = [], events = []\<rparr>))
   = Some (Inl (Undefined ''PyRun_SimpleFile on a null FILE pointer''), True)"
  by (simp add: processFile_open_fails)

text \<open>
  C2: for a script that cannot be opened \<open>processFile\<close> should signal a failure. It has
  no branch for the null \<open>FILE\<close> pointer and no \<open>return\<close> other than \<open>return true\<close>: the
  call on a missing script does not return a failure, it ends in undefined behaviour.
\<close>

theorem processFile_missing_script_no_error_signalled:
  "processFile
     \<lparr>argv0 = ''imhex'', parent_path = ''.'', path_exists = (\<lambda>p. False), fopen = (\<lambda>p. None)\<rparr>
     ''missing.py''
     (\<lparr>program_name = None, python_home = None, inittab = [], initialized = False,
       sys_path = [], script_open = False\<rparr>,
      \<lparr>s_filePath = ''f'', s_dataProvider = [], events = []\<rparr>)
   = Some (Inl (Undefined ''PyRun_SimpleFile on a null FILE pointer''),
           \<lparr>program_name = Some ''imhex'', python_home = None, inittab = [''_imhex''],
             initialized = True, sys_path = [''lib''], script_open = False\<rparr>,
           \<lparr>s_filePath = ''f'', s_dataProvider = [], events = []\<rparr>)"
  by (simp add: processFile_open_fails)

end
